theory Spec2Isabelle
  imports Main "HOL-Library.AList"
begin

section \<open>The job document model of \<^verbatim>\<open>app/models/job.py\<close>\<close>

subsection \<open>Python values and exceptions\<close>

text \<open>
  The values that travel through the model are the ones a decoded JSON document is made
  of. A Python dictionary is an association list with pairwise distinct keys; the order
  of the list is the order in which \<^verbatim>\<open>iteritems\<close> visits the entries, which Python 2
  leaves unspecified, so statements about a dictionary that comes from somewhere else are
  made for every order of its entries.
\<close>

datatype pyval =
    PyNone
  | PyBool bool
  | PyInt int
  | PyStr string
  | PyList "pyval list"
  | PyDict "(string \<times> pyval) list"

text \<open>
  The exceptions the module can raise. \<open>KeyError\<close> carries the missing key,
  \<open>ValueError\<close> is what the JSON decoder raises on text it cannot parse,
  \<open>AttributeError\<close> and \<open>TypeError\<close> come from attribute access and from calling
  \<^verbatim>\<open>pop\<close> on something that is not a dictionary.
\<close>

datatype error =
    KeyError string
  | ValueError
  | AttributeError
  | TypeError

subsection \<open>Keys of the mapping representation\<close>

text \<open>
  Modelled from the spec: the key constants that \<^verbatim>\<open>job.py\<close> imports from the package
  \<^verbatim>\<open>models\<close> (\<^verbatim>\<open>models/__init__.py\<close>, not part of the sources at hand). The spec lists
  the keys of the mapping representation as \<^verbatim>\<open>_id\<close>, \<^verbatim>\<open>job\<close>, \<^verbatim>\<open>kernel\<close>,
  \<^verbatim>\<open>private\<close>, \<^verbatim>\<open>status\<close>, \<^verbatim>\<open>updated\<close>, \<^verbatim>\<open>metadata\<close>.
\<close>

definition ID_KEY :: string where "ID_KEY = ''_id''"
definition JOB_KEY :: string where "JOB_KEY = ''job''"
definition KERNEL_KEY :: string where "KERNEL_KEY = ''kernel''"
definition METADATA_KEY :: string where "METADATA_KEY = ''metadata''"
definition PRIVATE_KEY :: string where "PRIVATE_KEY = ''private''"
definition STATUS_KEY :: string where "STATUS_KEY = ''status''"
definition UPDATED_KEY :: string where "UPDATED_KEY = ''updated''"

definition JOB_COLLECTION :: string where "JOB_COLLECTION = ''job''"

subsection \<open>The base document\<close>

text \<open>
  Modelled from the spec: the class \<^verbatim>\<open>BaseDocument\<close> of \<^verbatim>\<open>models/base.py\<close>, which is
  not part of the sources at hand. The spec describes it as the collaborator that holds
  the identity field and whose mapping conversion yields the identity key, which
  \<^verbatim>\<open>JobDocument.to_dict\<close> extends with its own keys. Its constructor stores the name it
  is given and its \<^verbatim>\<open>to_dict\<close> returns the one entry \<^verbatim>\<open>{ID_KEY: name}\<close>.
\<close>

record base_document =
  attr_name :: pyval

definition BaseDocument_to_dict :: "'a base_document_scheme \<Rightarrow> (string \<times> pyval) list" where
  "BaseDocument_to_dict self = [(ID_KEY, attr_name self)]"

subsection \<open>The job document\<close>

text \<open>
  An instance of \<^verbatim>\<open>JobDocument\<close> extends the base document by the six attributes that
  \<^verbatim>\<open>__init__\<close> creates (\<^verbatim>\<open>_private\<close>, \<^verbatim>\<open>_job\<close>, \<^verbatim>\<open>_kernel\<close>, \<^verbatim>\<open>_status\<close>,
  \<^verbatim>\<open>_updated\<close>, \<^verbatim>\<open>_metadata\<close>). No setter checks the type of what it stores, so
  every attribute holds an arbitrary value. \<open>attr_other\<close> is the rest of the instance
  dictionary: the attributes that \<^verbatim>\<open>setattr\<close> creates under names the class does not
  declare.
\<close>

record job_document = base_document +
  attr_private :: pyval
  attr_job :: pyval
  attr_kernel :: pyval
  attr_status :: pyval
  attr_updated :: pyval
  attr_metadata :: pyval
  attr_other :: "string \<rightharpoonup> pyval"

text \<open>\<^verbatim>\<open>__init__(self, name, job=None, kernel=None)\<close>\<close>

definition JobDocument :: "pyval \<Rightarrow> pyval \<Rightarrow> pyval \<Rightarrow> job_document" where
  "JobDocument name job kernel' =
     \<lparr> attr_name = name,
       attr_private = PyBool False,
       attr_job = job,
       attr_kernel = kernel',
       attr_status = PyNone,
       attr_updated = PyNone,
       attr_metadata = PyDict [],
       attr_other = Map.empty \<rparr>"

text \<open>The read-only property \<^verbatim>\<open>collection\<close>.\<close>

definition collection :: "job_document \<Rightarrow> string" where
  "collection self = JOB_COLLECTION"

text \<open>The six properties: a getter and a setter each.\<close>

definition get_private :: "job_document \<Rightarrow> pyval" where
  "get_private self = attr_private self"

definition set_private :: "job_document \<Rightarrow> pyval \<Rightarrow> job_document" where
  "set_private self v = self\<lparr>attr_private := v\<rparr>"

definition get_job :: "job_document \<Rightarrow> pyval" where
  "get_job self = attr_job self"

definition set_job :: "job_document \<Rightarrow> pyval \<Rightarrow> job_document" where
  "set_job self v = self\<lparr>attr_job := v\<rparr>"

definition get_kernel :: "job_document \<Rightarrow> pyval" where
  "get_kernel self = attr_kernel self"

definition set_kernel :: "job_document \<Rightarrow> pyval \<Rightarrow> job_document" where
  "set_kernel self v = self\<lparr>attr_kernel := v\<rparr>"

definition get_updated :: "job_document \<Rightarrow> pyval" where
  "get_updated self = attr_updated self"

definition set_updated :: "job_document \<Rightarrow> pyval \<Rightarrow> job_document" where
  "set_updated self v = self\<lparr>attr_updated := v\<rparr>"

definition get_status :: "job_document \<Rightarrow> pyval" where
  "get_status self = attr_status self"

definition set_status :: "job_document \<Rightarrow> pyval \<Rightarrow> job_document" where
  "set_status self v = self\<lparr>attr_status := v\<rparr>"

definition get_metadata :: "job_document \<Rightarrow> pyval" where
  "get_metadata self = attr_metadata self"

definition set_metadata :: "job_document \<Rightarrow> pyval \<Rightarrow> job_document" where
  "set_metadata self v = self\<lparr>attr_metadata := v\<rparr>"

text \<open>
  \<^verbatim>\<open>to_dict\<close>: the dictionary of the base class, then one item assignment per field, in
  the order of the source. \<open>AList.update\<close> is the item assignment \<^verbatim>\<open>d[k] = v\<close>: it
  replaces the entry of a key that is present and adds the entry otherwise.
\<close>

definition to_dict :: "job_document \<Rightarrow> (string \<times> pyval) list" where
  "to_dict self =
     (let job_dict = BaseDocument_to_dict self;
          job_dict = AList.update PRIVATE_KEY (attr_private self) job_dict;
          job_dict = AList.update JOB_KEY (attr_job self) job_dict;
          job_dict = AList.update KERNEL_KEY (attr_kernel self) job_dict;
          job_dict = AList.update UPDATED_KEY (attr_updated self) job_dict;
          job_dict = AList.update STATUS_KEY (attr_status self) job_dict;
          job_dict = AList.update METADATA_KEY (attr_metadata self) job_dict
      in job_dict)"

subsection \<open>Deserialization\<close>

text \<open>
  \<^verbatim>\<open>dict.pop(key)\<close> returns the value and leaves the dictionary without the entry (the
  second component is what remains of it); it raises
  \<open>KeyError\<close> when the key is absent. A list has a \<^verbatim>\<open>pop\<close> that wants an integer
  (\<open>TypeError\<close>); the other values have no attribute \<^verbatim>\<open>pop\<close> at all.
\<close>

fun pop :: "string \<Rightarrow> pyval \<Rightarrow> error + (pyval \<times> (string \<times> pyval) list)" where
  "pop k (PyDict kvs) =
     (case map_of kvs k of
        None \<Rightarrow> Inl (KeyError k)
      | Some v \<Rightarrow> Inr (v, AList.delete k kvs))"
| "pop k (PyList xs) = Inl TypeError"
| "pop k _ = Inl AttributeError"

text \<open>
  \<^verbatim>\<open>setattr(job_doc, key, value)\<close> on an instance of \<^verbatim>\<open>JobDocument\<close>. A name that the
  class declares as a property with a setter goes through the setter; \<^verbatim>\<open>collection\<close> is
  a property without a setter, so assigning to it raises \<open>AttributeError\<close>; the names of
  the six attributes behind the properties are written directly; any other name becomes
  an entry of the instance dictionary. The model knows the names that \<^verbatim>\<open>job.py\<close>
  declares: a name that only \<^verbatim>\<open>BaseDocument\<close> or Python's \<^verbatim>\<open>object\<close> gives a meaning
  to is treated as a name without declaration.
\<close>

definition setattr :: "job_document \<Rightarrow> string \<Rightarrow> pyval \<Rightarrow> error + job_document" where
  "setattr self key v =
     (if key = ''private'' then Inr (set_private self v)
      else if key = ''job'' then Inr (set_job self v)
      else if key = ''kernel'' then Inr (set_kernel self v)
      else if key = ''updated'' then Inr (set_updated self v)
      else if key = ''status'' then Inr (set_status self v)
      else if key = ''metadata'' then Inr (set_metadata self v)
      else if key = ''collection'' then Inl AttributeError
      else if key = ''_private'' then Inr (self\<lparr>attr_private := v\<rparr>)
      else if key = ''_job'' then Inr (self\<lparr>attr_job := v\<rparr>)
      else if key = ''_kernel'' then Inr (self\<lparr>attr_kernel := v\<rparr>)
      else if key = ''_updated'' then Inr (self\<lparr>attr_updated := v\<rparr>)
      else if key = ''_status'' then Inr (self\<lparr>attr_status := v\<rparr>)
      else if key = ''_metadata'' then Inr (self\<lparr>attr_metadata := v\<rparr>)
      else Inr (self\<lparr>attr_other := (attr_other self)(key \<mapsto> v)\<rparr>))"

text \<open>
  The loop \<^verbatim>\<open>for key, value in json_obj.iteritems(): setattr(job_doc, key, value)\<close>:
  the first assignment that raises ends it.
\<close>

fun setattrs :: "job_document \<Rightarrow> (string \<times> pyval) list \<Rightarrow> error + job_document" where
  "setattrs job_doc [] = Inr job_doc"
| "setattrs job_doc ((key, v) # kvs) =
     (case setattr job_doc key v of
        Inl e \<Rightarrow> Inl e
      | Inr job_doc' \<Rightarrow> setattrs job_doc' kvs)"

text \<open>
  The body of \<^verbatim>\<open>from_json\<close> from the \<^verbatim>\<open>pop\<close> on, for the object that \<^verbatim>\<open>json_obj\<close>
  is bound to at that point. It returns the outcome together with the state in which it
  leaves that object: \<^verbatim>\<open>pop\<close> changes the dictionary in place.
\<close>

definition from_json_obj :: "pyval \<Rightarrow> (error + job_document) \<times> pyval" where
  "from_json_obj json_obj =
     (case pop ID_KEY json_obj of
        Inl e \<Rightarrow> (Inl e, json_obj)
      | Inr (name, kvs) \<Rightarrow> (setattrs (JobDocument name PyNone PyNone) kvs, PyDict kvs))"

text \<open>
  \<^verbatim>\<open>from_json(json_obj)\<close>. The decoder \<^verbatim>\<open>bson.json_util.loads\<close> belongs to an external
  library and is the parameter \<open>loads\<close>: it returns the decoded value or the exception it
  raises. The result is the outcome of the call and the state of the caller's argument
  after it. Text is immutable and the decoded dictionary is local to the call; a
  dictionary passed in is the very object the \<^verbatim>\<open>pop\<close> works on.
\<close>

fun from_json :: "(string \<Rightarrow> error + pyval) \<Rightarrow> pyval \<Rightarrow> (error + job_document) \<times> pyval" where
  "from_json loads (PyStr s) =
     (case loads s of
        Inl e \<Rightarrow> (Inl e, PyStr s)
      | Inr obj \<Rightarrow> (fst (from_json_obj obj), PyStr s))"
| "from_json loads json_obj = from_json_obj json_obj"

subsection \<open>Reading an instance back\<close>

text \<open>
  \<open>backing key\<close> is the name of the instance attribute that an assignment to \<open>key\<close>
  writes: the setter of the property \<^verbatim>\<open>job\<close> writes \<^verbatim>\<open>_job\<close>, and so on for the
  six properties; any other name is written under itself.
\<close>

definition backing :: "string \<Rightarrow> string" where
  "backing key =
     (if key \<in> {''private'', ''job'', ''kernel'', ''updated'', ''status'', ''metadata''}
      then CHR ''_'' # key else key)"

text \<open>
  \<open>instance_attr self key\<close> is the value that \<^verbatim>\<open>getattr(self, key)\<close> reads from the
  instance: through the getter of a property, or from the instance dictionary. It is
  \<open>None\<close> for a name under which the instance holds nothing (the methods and constants
  of the class are not values of the model).
\<close>

definition instance_attr :: "job_document \<Rightarrow> string \<Rightarrow> pyval option" where
  "instance_attr self key =
     (if key = ''private'' then Some (get_private self)
      else if key = ''job'' then Some (get_job self)
      else if key = ''kernel'' then Some (get_kernel self)
      else if key = ''updated'' then Some (get_updated self)
      else if key = ''status'' then Some (get_status self)
      else if key = ''metadata'' then Some (get_metadata self)
      else if key = ''collection'' then Some (PyStr (collection self))
      else if key = ''_private'' then Some (attr_private self)
      else if key = ''_job'' then Some (attr_job self)
      else if key = ''_kernel'' then Some (attr_kernel self)
      else if key = ''_updated'' then Some (attr_updated self)
      else if key = ''_status'' then Some (attr_status self)
      else if key = ''_metadata'' then Some (attr_metadata self)
      else attr_other self key)"

subsection \<open>A decoder to evaluate with\<close>

text \<open>
  \<open>from_json\<close> takes its decoder as a parameter. To evaluate it on concrete text, here
  is a decoder for a fragment of JSON: objects, arrays, strings without escape
  sequences, integers, \<^verbatim>\<open>true\<close>, \<^verbatim>\<open>false\<close> and \<^verbatim>\<open>null\<close>, with white space between
  the tokens. It returns \<open>ValueError\<close> for any other text, as Python's decoder does for
  text that is not JSON. The recursion runs on a counter that starts above twice the
  length of the text.
\<close>

definition is_ws :: "char \<Rightarrow> bool" where
  "is_ws c = (c = CHR '' '' \<or> c = CHR 0x09 \<or> c = CHR 0x0A \<or> c = CHR 0x0D)"

definition skip_ws :: "string \<Rightarrow> string" where
  "skip_ws s = dropWhile is_ws s"

fun strip_prefix :: "string \<Rightarrow> string \<Rightarrow> string option" where
  "strip_prefix [] s = Some s"
| "strip_prefix (p # ps) [] = None"
| "strip_prefix (p # ps) (c # cs) = (if p = c then strip_prefix ps cs else None)"

text \<open>The characters of a string up to its closing quotation mark.\<close>

fun parse_string :: "string \<Rightarrow> (string \<times> string) option" where
  "parse_string [] = None"
| "parse_string (c # cs) =
     (if c = CHR 0x22 then Some ([], cs)
      else if c = CHR 0x5C then None
      else (case parse_string cs of
              None \<Rightarrow> None
            | Some (str, r) \<Rightarrow> Some (c # str, r)))"

definition digit_val :: "char \<Rightarrow> int option" where
  "digit_val c = map_of (zip ''0123456789'' [0, 1, 2, 3, 4, 5, 6, 7, 8, 9]) c"

fun parse_digits :: "int \<Rightarrow> string \<Rightarrow> int \<times> string" where
  "parse_digits n [] = (n, [])"
| "parse_digits n (c # cs) =
     (case digit_val c of
        None \<Rightarrow> (n, c # cs)
      | Some d \<Rightarrow> parse_digits (10 * n + d) cs)"

definition parse_nat :: "string \<Rightarrow> (int \<times> string) option" where
  "parse_nat s =
     (case s of
        [] \<Rightarrow> None
      | c # cs \<Rightarrow> (case digit_val c of None \<Rightarrow> None | Some d \<Rightarrow> Some (parse_digits d cs)))"

definition parse_int :: "string \<Rightarrow> (pyval \<times> string) option" where
  "parse_int s =
     (case strip_prefix ''-'' s of
        Some r \<Rightarrow> (case parse_nat r of None \<Rightarrow> None | Some (n, r') \<Rightarrow> Some (PyInt (- n), r'))
      | None \<Rightarrow> (case parse_nat s of None \<Rightarrow> None | Some (n, r') \<Rightarrow> Some (PyInt n, r')))"

fun parse_value :: "nat \<Rightarrow> string \<Rightarrow> (pyval \<times> string) option"
  and parse_elements :: "nat \<Rightarrow> string \<Rightarrow> pyval list \<Rightarrow> (pyval \<times> string) option"
  and parse_members :: "nat \<Rightarrow> string \<Rightarrow> (string \<times> pyval) list \<Rightarrow> (pyval \<times> string) option"
where
  "parse_value 0 s = None"
| "parse_value (Suc n) s =
     (case strip_prefix ''null'' (skip_ws s) of Some r \<Rightarrow> Some (PyNone, r) | None \<Rightarrow>
      case strip_prefix ''true'' (skip_ws s) of Some r \<Rightarrow> Some (PyBool True, r) | None \<Rightarrow>
      case strip_prefix ''false'' (skip_ws s) of Some r \<Rightarrow> Some (PyBool False, r) | None \<Rightarrow>
      case strip_prefix [CHR 0x22] (skip_ws s) of
        Some r \<Rightarrow> (case parse_string r of None \<Rightarrow> None | Some (str, r') \<Rightarrow> Some (PyStr str, r'))
      | None \<Rightarrow>
      case strip_prefix ''['' (skip_ws s) of
        Some r \<Rightarrow> (case strip_prefix '']'' (skip_ws r) of
                     Some r' \<Rightarrow> Some (PyList [], r')
                   | None \<Rightarrow> parse_elements n r [])
      | None \<Rightarrow>
      case strip_prefix ''{'' (skip_ws s) of
        Some r \<Rightarrow> (case strip_prefix ''}'' (skip_ws r) of
                     Some r' \<Rightarrow> Some (PyDict [], r')
                   | None \<Rightarrow> parse_members n r [])
      | None \<Rightarrow> parse_int (skip_ws s))"
| "parse_elements 0 s acc = None"
| "parse_elements (Suc n) s acc =
     (case parse_value n s of
        None \<Rightarrow> None
      | Some (v, r) \<Rightarrow>
          (case strip_prefix '','' (skip_ws r) of
             Some r' \<Rightarrow> parse_elements n r' (acc @ [v])
           | None \<Rightarrow>
               (case strip_prefix '']'' (skip_ws r) of
                  Some r' \<Rightarrow> Some (PyList (acc @ [v]), r')
                | None \<Rightarrow> None)))"
| "parse_members 0 s acc = None"
| "parse_members (Suc n) s acc =
     (case strip_prefix [CHR 0x22] (skip_ws s) of
        None \<Rightarrow> None
      | Some r \<Rightarrow>
          (case parse_string r of
             None \<Rightarrow> None
           | Some (k, r1) \<Rightarrow>
               (case strip_prefix '':'' (skip_ws r1) of
                  None \<Rightarrow> None
                | Some r2 \<Rightarrow>
                    (case parse_value n r2 of
                       None \<Rightarrow> None
                     | Some (v, r3) \<Rightarrow>
                         (case strip_prefix '','' (skip_ws r3) of
                            Some r4 \<Rightarrow> parse_members n r4 (AList.update k v acc)
                          | None \<Rightarrow>
                              (case strip_prefix ''}'' (skip_ws r3) of
                                 Some r4 \<Rightarrow> Some (PyDict (AList.update k v acc), r4)
                               | None \<Rightarrow> None))))))"

definition json_loads :: "string \<Rightarrow> error + pyval" where
  "json_loads s =
     (case parse_value (Suc (Suc (length s + length s))) s of
        None \<Rightarrow> Inl ValueError
      | Some (v, r) \<Rightarrow> if skip_ws r = [] then Inr v else Inl ValueError)"

section \<open>Unfolding rules\<close>

lemmas key_defs =
  ID_KEY_def JOB_KEY_def KERNEL_KEY_def METADATA_KEY_def PRIVATE_KEY_def STATUS_KEY_def
  UPDATED_KEY_def

lemmas getter_defs =
  get_private_def get_job_def get_kernel_def get_updated_def get_status_def get_metadata_def

lemmas setter_defs =
  set_private_def set_job_def set_kernel_def set_updated_def set_status_def set_metadata_def

section \<open>Attribute assignment\<close>

lemma declared_cases:
  assumes "k \<in> {''private'', ''job'', ''kernel'', ''updated'', ''status'', ''metadata'',
             ''collection'', ''_private'', ''_job'', ''_kernel'', ''_updated'', ''_status'',
             ''_metadata''}"
  shows "k = ''private'' \<or> k = ''job'' \<or> k = ''kernel'' \<or> k = ''updated'' \<or> k = ''status''
     \<or> k = ''metadata'' \<or> k = ''collection'' \<or> k = ''_private'' \<or> k = ''_job'' \<or> k = ''_kernel''
     \<or> k = ''_updated'' \<or> k = ''_status'' \<or> k = ''_metadata''"
  using assms by simp

lemma setattr_same: "setattr d k v = Inr d' \<Longrightarrow> instance_attr d' k = Some v"
proof (cases "k \<in> {''private'', ''job'', ''kernel'', ''updated'', ''status'', ''metadata'',
             ''collection'', ''_private'', ''_job'', ''_kernel'', ''_updated'', ''_status'',
             ''_metadata''}")
  case False
  assume "setattr d k v = Inr d'"
  with False show ?thesis by (auto simp: setattr_def instance_attr_def)
next
  case True
  assume a: "setattr d k v = Inr d'"
  show ?thesis
    using declared_cases [OF True] a
    by (elim disjE) (auto simp: setattr_def instance_attr_def getter_defs setter_defs)
qed

lemma backing_literal:
  "backing ''private'' = ''_private''" "backing ''job'' = ''_job''"
  "backing ''kernel'' = ''_kernel''" "backing ''updated'' = ''_updated''"
  "backing ''status'' = ''_status''" "backing ''metadata'' = ''_metadata''"
  "backing ''_private'' = ''_private''" "backing ''_job'' = ''_job''"
  "backing ''_kernel'' = ''_kernel''" "backing ''_updated'' = ''_updated''"
  "backing ''_status'' = ''_status''" "backing ''_metadata'' = ''_metadata''"
  "backing ''collection'' = ''collection''" "backing ''_id'' = ''_id''"
  by (simp_all add: backing_def)

lemma backing_eq_iff:
  "backing k = ''_private'' \<longleftrightarrow> k = ''private'' \<or> k = ''_private''"
  "backing k = ''_job'' \<longleftrightarrow> k = ''job'' \<or> k = ''_job''"
  "backing k = ''_kernel'' \<longleftrightarrow> k = ''kernel'' \<or> k = ''_kernel''"
  "backing k = ''_updated'' \<longleftrightarrow> k = ''updated'' \<or> k = ''_updated''"
  "backing k = ''_status'' \<longleftrightarrow> k = ''status'' \<or> k = ''_status''"
  "backing k = ''_metadata'' \<longleftrightarrow> k = ''metadata'' \<or> k = ''_metadata''"
  "backing k = ''collection'' \<longleftrightarrow> k = ''collection''"
  "backing k = ''_id'' \<longleftrightarrow> k = ''_id''"
  by (auto simp: backing_def)

lemma setattr_other:
  assumes a: "setattr d k v = Inr d'" and b: "backing k' \<noteq> backing k"
  shows "instance_attr d' k' = instance_attr d k'"
proof (cases "k \<in> {''private'', ''job'', ''kernel'', ''updated'', ''status'', ''metadata'',
             ''collection'', ''_private'', ''_job'', ''_kernel'', ''_updated'', ''_status'',
             ''_metadata''}")
  case False
  with a have d': "d' = d\<lparr>attr_other := (attr_other d)(k \<mapsto> v)\<rparr>"
    by (auto simp: setattr_def)
  from False have bk: "backing k = k" by (simp add: backing_def)
  from b bk have "k' \<noteq> k" by (auto simp: backing_def split: if_splits)
  then show ?thesis
    by (simp add: d' instance_attr_def getter_defs collection_def)
next
  case True
  show ?thesis
    using declared_cases [OF True] a b
    by (elim disjE;
        clarsimp simp: setattr_def setter_defs backing_literal backing_eq_iff;
        simp add: instance_attr_def getter_defs collection_def)
qed

lemma setattr_name: "setattr d k v = Inr d' \<Longrightarrow> attr_name d' = attr_name d"
  by (simp add: setattr_def setter_defs split: if_splits) auto

lemma setattr_succeeds: "k \<noteq> ''collection'' \<Longrightarrow> \<exists>d'. setattr d k v = Inr d'"
  by (simp add: setattr_def)

lemma setattr_collection: "setattr d ''collection'' v = Inl AttributeError"
  by (simp add: setattr_def)

lemma setattr_error: "setattr d k v = Inl e \<Longrightarrow> k = ''collection'' \<and> e = AttributeError"
  by (simp add: setattr_def split: if_splits)


lemma setattrs_succeeds:
  "''collection'' \<notin> fst ` set kvs \<Longrightarrow> \<exists>d'. setattrs d kvs = Inr d'"
proof (induction kvs arbitrary: d)
  case Nil
  show ?case by simp
next
  case (Cons kv kvs)
  obtain k v where kv: "kv = (k, v)" by (cases kv)
  from Cons.prems kv have "k \<noteq> ''collection''" by auto
  then obtain d1 where d1: "setattr d k v = Inr d1"
    using setattr_succeeds by blast
  from Cons.prems have "''collection'' \<notin> fst ` set kvs" by auto
  from Cons.IH [OF this] obtain d' where "setattrs d1 kvs = Inr d'" by blast
  with kv d1 show ?case by simp
qed

lemma setattrs_fails:
  "''collection'' \<in> fst ` set kvs \<Longrightarrow> setattrs d kvs = Inl AttributeError"
proof (induction kvs arbitrary: d)
  case Nil
  then show ?case by simp
next
  case (Cons kv kvs)
  obtain k v where kv: "kv = (k, v)" by (cases kv)
  show ?case
  proof (cases "k = ''collection''")
    case True
    with kv show ?thesis by (simp add: setattr_collection)
  next
    case False
    then obtain d1 where d1: "setattr d k v = Inr d1"
      using setattr_succeeds by blast
    from Cons.prems kv False have "''collection'' \<in> fst ` set kvs" by auto
    from Cons.IH [OF this] have "setattrs d1 kvs = Inl AttributeError" .
    with kv d1 show ?thesis by simp
  qed
qed

lemma setattrs_name: "setattrs d kvs = Inr d' \<Longrightarrow> attr_name d' = attr_name d"
proof (induction kvs arbitrary: d)
  case Nil
  then show ?case by simp
next
  case (Cons kv kvs)
  obtain k v where kv: "kv = (k, v)" by (cases kv)
  from Cons.prems kv obtain d1 where d1: "setattr d k v = Inr d1" and r: "setattrs d1 kvs = Inr d'"
    by (auto split: sum.splits)
  from Cons.IH [OF r] setattr_name [OF d1] show ?case by simp
qed

lemma setattrs_untouched:
  "setattrs d kvs = Inr d' \<Longrightarrow> backing k \<notin> backing ` fst ` set kvs \<Longrightarrow>
   instance_attr d' k = instance_attr d k"
proof (induction kvs arbitrary: d)
  case Nil
  then show ?case by simp
next
  case (Cons kv kvs)
  obtain k0 v0 where kv: "kv = (k0, v0)" by (cases kv)
  from Cons.prems(1) kv obtain d1 where d1: "setattr d k0 v0 = Inr d1" and r: "setattrs d1 kvs = Inr d'"
    by (auto split: sum.splits)
  from Cons.prems(2) kv have ne: "backing k \<noteq> backing k0" and rest: "backing k \<notin> backing ` fst ` set kvs"
    by auto
  from Cons.IH [OF r rest] setattr_other [OF d1 ne] show ?case by simp
qed

lemma setattrs_read:
  "setattrs d kvs = Inr d' \<Longrightarrow> distinct (map backing (map fst kvs)) \<Longrightarrow> (k, v) \<in> set kvs \<Longrightarrow>
   instance_attr d' k = Some v"
proof (induction kvs arbitrary: d)
  case Nil
  then show ?case by simp
next
  case (Cons kv kvs)
  obtain k0 v0 where kv: "kv = (k0, v0)" by (cases kv)
  from Cons.prems(1) kv obtain d1 where d1: "setattr d k0 v0 = Inr d1" and r: "setattrs d1 kvs = Inr d'"
    by (auto split: sum.splits)
  from Cons.prems(2) kv have fresh: "backing k0 \<notin> backing ` fst ` set kvs"
    and dist: "distinct (map backing (map fst kvs))" by auto
  show ?case
  proof (cases "(k, v) = (k0, v0)")
    case True
    from setattrs_untouched [OF r fresh] setattr_same [OF d1] True show ?thesis by simp
  next
    case False
    with Cons.prems(3) kv have "(k, v) \<in> set kvs" by auto
    from Cons.IH [OF r dist this] show ?thesis .
  qed
qed

lemma from_json_obj_dict:
  "map_of kvs ID_KEY = Some name \<Longrightarrow>
   from_json_obj (PyDict kvs) =
     (setattrs (JobDocument name PyNone PyNone) (AList.delete ID_KEY kvs),
      PyDict (AList.delete ID_KEY kvs))"
  by (simp add: from_json_obj_def)

lemma from_json_obj_no_id:
  "map_of kvs ID_KEY = None \<Longrightarrow> from_json_obj (PyDict kvs) = (Inl (KeyError ID_KEY), PyDict kvs)"
  by (simp add: from_json_obj_def)


lemma set_delete: "set (AList.delete k kvs) = {kv \<in> set kvs. fst kv \<noteq> k}"
  by (auto simp: AList.delete_eq)

lemma distinct_backing_delete:
  "distinct (map backing (map fst kvs)) \<Longrightarrow> distinct (map backing (map fst (AList.delete k kvs)))"
  by (simp add: AList.delete_eq distinct_map_filter)

lemma from_json_dict_reads:
  assumes id: "map_of kvs ID_KEY = Some name"
    and dist: "distinct (map backing (map fst kvs))"
    and nc: "''collection'' \<notin> fst ` set kvs"
  shows "\<exists>doc. from_json loads (PyDict kvs) = (Inr doc, PyDict (AList.delete ID_KEY kvs))
           \<and> attr_name doc = name
           \<and> (\<forall>(k, v) \<in> set kvs. k \<noteq> ID_KEY \<longrightarrow> instance_attr doc k = Some v)
           \<and> (\<forall>k. backing k \<notin> backing ` (fst ` set kvs - {ID_KEY}) \<longrightarrow>
                 instance_attr doc k = instance_attr (JobDocument name PyNone PyNone) k)"
proof -
  let ?rest = "AList.delete ID_KEY kvs"
  have fj: "from_json loads (PyDict kvs) = (setattrs (JobDocument name PyNone PyNone) ?rest, PyDict ?rest)"
    using id by (simp add: from_json_obj_dict)
  have "''collection'' \<notin> fst ` set ?rest"
    using nc by (auto simp: set_delete)
  from setattrs_succeeds [OF this]
  obtain doc where doc: "setattrs (JobDocument name PyNone PyNone) ?rest = Inr doc" by blast
  have d': "distinct (map backing (map fst ?rest))"
    using dist by (rule distinct_backing_delete)
  have nm: "attr_name doc = name"
    using setattrs_name [OF doc] by (simp add: JobDocument_def)
  have rd: "instance_attr doc k = Some v" if "(k, v) \<in> set kvs" "k \<noteq> ID_KEY" for k v
  proof -
    from that have "(k, v) \<in> set ?rest" by (simp add: set_delete)
    from setattrs_read [OF doc d' this] show ?thesis .
  qed
  have keys: "fst ` set ?rest = fst ` set kvs - {ID_KEY}"
    by (auto simp: set_delete image_iff)
  have un: "instance_attr doc k = instance_attr (JobDocument name PyNone PyNone) k"
    if "backing k \<notin> backing ` (fst ` set kvs - {ID_KEY})" for k
    using setattrs_untouched [OF doc] that keys by simp
  from fj doc nm rd un show ?thesis by auto
qed

lemma to_dict_list:
  "to_dict d =
     [(ID_KEY, attr_name d), (PRIVATE_KEY, attr_private d), (JOB_KEY, attr_job d),
      (KERNEL_KEY, attr_kernel d), (UPDATED_KEY, attr_updated d), (STATUS_KEY, attr_status d),
      (METADATA_KEY, attr_metadata d)]"
  by (simp add: to_dict_def BaseDocument_to_dict_def key_defs)

lemma keys_to_dict:
  "fst ` set (to_dict d) =
     {ID_KEY, PRIVATE_KEY, JOB_KEY, KERNEL_KEY, UPDATED_KEY, STATUS_KEY, METADATA_KEY}"
  by (simp add: to_dict_list)

lemma distinct_to_dict: "distinct (map fst (to_dict d))"
  by (simp add: to_dict_list key_defs)

section \<open>Serialization and deserialization\<close>

text \<open>
  C1. Round trip: take any document, convert it with \<open>to_dict\<close> and pass the resulting
  dictionary, in whatever order its entries are visited, to \<open>from_json\<close>. The call returns
  an instance whose name and whose \<open>private\<close>, \<open>job\<close>, \<open>kernel\<close>, \<open>updated\<close>,
  \<open>status\<close> and \<open>metadata\<close> values equal the original's. The statement needs no
  premise on how the name relates to job and kernel, so it covers the documents whose
  name was built from them.
\<close>

theorem to_dict_from_json_roundtrip:
  assumes dist: "distinct (map fst kvs)" and same: "map_of kvs = map_of (to_dict d)"
  shows "\<exists>d'. from_json loads (PyDict kvs) = (Inr d', PyDict (AList.delete ID_KEY kvs))
           \<and> attr_name d' = attr_name d
           \<and> get_private d' = get_private d
           \<and> get_job d' = get_job d
           \<and> get_kernel d' = get_kernel d
           \<and> get_updated d' = get_updated d
           \<and> get_status d' = get_status d
           \<and> get_metadata d' = get_metadata d"
proof -
  have keys: "fst ` set kvs =
      {ID_KEY, PRIVATE_KEY, JOB_KEY, KERNEL_KEY, UPDATED_KEY, STATUS_KEY, METADATA_KEY}"
    using same keys_to_dict [of d] by (simp add: dom_map_of_conv_image_fst [symmetric])
  have id: "map_of kvs ID_KEY = Some (attr_name d)"
    by (simp add: same to_dict_list key_defs)
  have "inj_on backing (set (map fst kvs))"
    using keys by (simp add: key_defs backing_literal)
  with dist have db: "distinct (map backing (map fst kvs))"
    using distinct_map [of backing "map fst kvs"] by blast
  have nc: "''collection'' \<notin> fst ` set kvs"
    by (simp add: keys key_defs)
  from from_json_dict_reads [OF id db nc, of loads]
  obtain d' where fj: "from_json loads (PyDict kvs) = (Inr d', PyDict (AList.delete ID_KEY kvs))"
    and nm: "attr_name d' = attr_name d"
    and rd: "\<And>k v. (k, v) \<in> set kvs \<Longrightarrow> k \<noteq> ID_KEY \<Longrightarrow> instance_attr d' k = Some v"
    by blast
  have mem: "map_of kvs k = Some v \<Longrightarrow> (k, v) \<in> set kvs" for k v
    by (rule map_of_SomeD)
  have "(''private'', attr_private d) \<in> set kvs" "(''job'', attr_job d) \<in> set kvs"
    "(''kernel'', attr_kernel d) \<in> set kvs" "(''updated'', attr_updated d) \<in> set kvs"
    "(''status'', attr_status d) \<in> set kvs" "(''metadata'', attr_metadata d) \<in> set kvs"
    by (rule mem, simp add: same to_dict_list key_defs)+
  then have "instance_attr d' ''private'' = Some (attr_private d)"
    "instance_attr d' ''job'' = Some (attr_job d)"
    "instance_attr d' ''kernel'' = Some (attr_kernel d)"
    "instance_attr d' ''updated'' = Some (attr_updated d)"
    "instance_attr d' ''status'' = Some (attr_status d)"
    "instance_attr d' ''metadata'' = Some (attr_metadata d)"
    by (simp_all add: rd key_defs)
  then have "get_private d' = get_private d" "get_job d' = get_job d" "get_kernel d' = get_kernel d"
    "get_updated d' = get_updated d" "get_status d' = get_status d" "get_metadata d' = get_metadata d"
    by (simp_all add: instance_attr_def getter_defs)
  with fj nm show ?thesis by blast
qed


theorem to_dict_from_json_roundtrip_witness:
  "distinct (map fst
      [(''metadata'', PyDict [(''git_commit'', PyStr ''abc123'')]), (''_id'', PyStr ''myjob-3.10''),
       (''job'', PyStr ''myjob''), (''status'', PyStr ''PASS''), (''kernel'', PyStr ''3.10''),
       (''private'', PyBool False), (''updated'', PyNone)])
   \<and> map_of
      [(''metadata'', PyDict [(''git_commit'', PyStr ''abc123'')]), (''_id'', PyStr ''myjob-3.10''),
       (''job'', PyStr ''myjob''), (''status'', PyStr ''PASS''), (''kernel'', PyStr ''3.10''),
       (''private'', PyBool False), (''updated'', PyNone)]
     = map_of (to_dict
         (set_metadata
            (set_status (JobDocument (PyStr ''myjob-3.10'') (PyStr ''myjob'') (PyStr ''3.10''))
               (PyStr ''PASS''))
            (PyDict [(''git_commit'', PyStr ''abc123'')])))
   \<and> (\<exists>d'. from_json json_loads (PyDict
      [(''metadata'', PyDict [(''git_commit'', PyStr ''abc123'')]), (''_id'', PyStr ''myjob-3.10''),
       (''job'', PyStr ''myjob''), (''status'', PyStr ''PASS''), (''kernel'', PyStr ''3.10''),
       (''private'', PyBool False), (''updated'', PyNone)])
        = (Inr d', PyDict
      [(''metadata'', PyDict [(''git_commit'', PyStr ''abc123'')]),
       (''job'', PyStr ''myjob''), (''status'', PyStr ''PASS''), (''kernel'', PyStr ''3.10''),
       (''private'', PyBool False), (''updated'', PyNone)])
      \<and> attr_name d' = PyStr ''myjob-3.10''
      \<and> get_private d' = PyBool False
      \<and> get_job d' = PyStr ''myjob''
      \<and> get_kernel d' = PyStr ''3.10''
      \<and> get_updated d' = PyNone
      \<and> get_status d' = PyStr ''PASS''
      \<and> get_metadata d' = PyDict [(''git_commit'', PyStr ''abc123'')])"
proof -
  let ?d = "set_metadata
            (set_status (JobDocument (PyStr ''myjob-3.10'') (PyStr ''myjob'') (PyStr ''3.10''))
               (PyStr ''PASS''))
            (PyDict [(''git_commit'', PyStr ''abc123'')])"
  let ?kvs = "[(''metadata'', PyDict [(''git_commit'', PyStr ''abc123'')]), (''_id'', PyStr ''myjob-3.10''),
       (''job'', PyStr ''myjob''), (''status'', PyStr ''PASS''), (''kernel'', PyStr ''3.10''),
       (''private'', PyBool False), (''updated'', PyNone)]"
  have h1: "distinct (map fst ?kvs)" by simp
  have h2: "map_of ?kvs = map_of (to_dict ?d)"
    by (rule ext) (simp add: to_dict_list key_defs JobDocument_def setter_defs)
  from to_dict_from_json_roundtrip [OF h1 h2, of json_loads] h1 h2
  show ?thesis
    by (simp add: key_defs JobDocument_def setter_defs getter_defs)
qed

text \<open>
  C2. \<open>to_dict\<close> on \<^verbatim>\<open>JobDocument("myjob-3.10", job="myjob", kernel="3.10")\<close> is the
  mapping with exactly the seven entries \<^verbatim>\<open>_id\<close>, \<^verbatim>\<open>job\<close>, \<^verbatim>\<open>kernel\<close>,
  \<^verbatim>\<open>private\<close> (false), \<^verbatim>\<open>status\<close> (none), \<^verbatim>\<open>updated\<close> (none) and
  \<^verbatim>\<open>metadata\<close> (empty): equal as a mapping, with seven pairwise distinct keys.
\<close>

theorem to_dict_scenario:
  "map_of (to_dict (JobDocument (PyStr ''myjob-3.10'') (PyStr ''myjob'') (PyStr ''3.10'')))
     = [''_id'' \<mapsto> PyStr ''myjob-3.10'', ''job'' \<mapsto> PyStr ''myjob'', ''kernel'' \<mapsto> PyStr ''3.10'',
        ''private'' \<mapsto> PyBool False, ''status'' \<mapsto> PyNone, ''updated'' \<mapsto> PyNone,
        ''metadata'' \<mapsto> PyDict []]
   \<and> distinct (map fst (to_dict (JobDocument (PyStr ''myjob-3.10'') (PyStr ''myjob'') (PyStr ''3.10''))))
   \<and> length (to_dict (JobDocument (PyStr ''myjob-3.10'') (PyStr ''myjob'') (PyStr ''3.10''))) = 7"
proof -
  let ?d = "JobDocument (PyStr ''myjob-3.10'') (PyStr ''myjob'') (PyStr ''3.10'')"
  have 1: "map_of (to_dict ?d)
     = [''_id'' \<mapsto> PyStr ''myjob-3.10'', ''job'' \<mapsto> PyStr ''myjob'', ''kernel'' \<mapsto> PyStr ''3.10'',
        ''private'' \<mapsto> PyBool False, ''status'' \<mapsto> PyNone, ''updated'' \<mapsto> PyNone,
        ''metadata'' \<mapsto> PyDict []]"
    by (rule ext) (simp add: to_dict_list key_defs JobDocument_def)
  have 2: "distinct (map fst (to_dict ?d))"
    by (simp add: to_dict_list key_defs)
  have 3: "length (to_dict ?d) = 7"
    by (simp add: to_dict_list)
  from 1 2 3 show ?thesis by blast
qed

text \<open>
  C3. A mapping without the identity key makes \<open>from_json\<close> fail with the \<open>KeyError\<close>
  of that key, the error that says the identity key is missing; no instance is returned
  and the mapping is left as it was. The same holds when the mapping is what the decoder
  makes of a text.
\<close>

theorem from_json_missing_id:
  assumes "ID_KEY \<notin> fst ` set kvs"
  shows "from_json loads (PyDict kvs) = (Inl (KeyError ID_KEY), PyDict kvs)
         \<and> (loads s = Inr (PyDict kvs) \<longrightarrow> fst (from_json loads (PyStr s)) = Inl (KeyError ID_KEY))"
proof -
  from assms have "map_of kvs ID_KEY = None"
    by (simp add: map_of_eq_None_iff)
  then show ?thesis by (simp add: from_json_obj_no_id)
qed

theorem from_json_missing_id_witness:
  "ID_KEY \<notin> fst ` set [(''job'', PyStr ''x''), (''kernel'', PyStr ''y'')]
   \<and> from_json json_loads (PyDict [(''job'', PyStr ''x''), (''kernel'', PyStr ''y'')])
       = (Inl (KeyError ''_id''), PyDict [(''job'', PyStr ''x''), (''kernel'', PyStr ''y'')])
   \<and> json_loads ''{\"job\": \"x\", \"kernel\": \"y\"}''
       = Inr (PyDict [(''job'', PyStr ''x''), (''kernel'', PyStr ''y'')])
   \<and> fst (from_json json_loads (PyStr ''{\"job\": \"x\", \"kernel\": \"y\"}'')) = Inl (KeyError ''_id'')"
proof -
  have h: "ID_KEY \<notin> fst ` set [(''job'', PyStr ''x''), (''kernel'', PyStr ''y'')]"
    by (simp add: ID_KEY_def)
  have l: "json_loads ''{\"job\": \"x\", \"kernel\": \"y\"}''
       = Inr (PyDict [(''job'', PyStr ''x''), (''kernel'', PyStr ''y'')])"
    by (simp add: json_loads_def skip_ws_def is_ws_def)
  from from_json_missing_id [OF h, of json_loads "''{\"job\": \"x\", \"kernel\": \"y\"}''"] h l
  show ?thesis by (simp add: ID_KEY_def)
qed

text \<open>
  C4. When the text is not valid, that is when the decoder fails on it, \<open>from_json\<close>
  fails with the decoder's error and returns no instance.
\<close>

theorem from_json_decode_error:
  assumes "loads s = Inl e"
  shows "from_json loads (PyStr s) = (Inl e, PyStr s)"
  using assms by simp

theorem from_json_decode_error_witness:
  "json_loads ''{not valid}'' = Inl ValueError
   \<and> from_json json_loads (PyStr ''{not valid}'') = (Inl ValueError, PyStr ''{not valid}'')"
proof -
  have h: "json_loads ''{not valid}'' = Inl ValueError"
    by (simp add: json_loads_def skip_ws_def is_ws_def)
  from from_json_decode_error [of json_loads "''{not valid}''" ValueError] h
  show ?thesis by simp
qed




text \<open>
  A property and the attribute behind it are one storage place. When a mapping has both
  \<^verbatim>\<open>job\<close> and \<^verbatim>\<open>_job\<close>, the entry visited last decides the value, so one of the two
  keys does not read back as the mapping had it.
\<close>

lemma from_json_alias_example:
  "fst (from_json json_loads (PyDict [(''_id'', PyStr ''a-b''), (''job'', PyStr ''x''), (''_job'', PyStr ''y'')]))
     = Inr ((JobDocument (PyStr ''a-b'') PyNone PyNone)\<lparr>attr_job := PyStr ''y''\<rparr>)
   \<and> fst (from_json json_loads (PyDict [(''_id'', PyStr ''a-b''), (''_job'', PyStr ''y''), (''job'', PyStr ''x'')]))
     = Inr ((JobDocument (PyStr ''a-b'') PyNone PyNone)\<lparr>attr_job := PyStr ''x''\<rparr>)"
  by (simp add: from_json_obj_def ID_KEY_def setattr_def setter_defs)

lemma from_json_collection_fails:
  assumes "map_of kvs ID_KEY = Some name" and "''collection'' \<in> fst ` set kvs"
  shows "fst (from_json loads (PyDict kvs)) = Inl AttributeError"
proof -
  from assms(2) have "''collection'' \<in> fst ` set (AList.delete ID_KEY kvs)"
    by (auto simp: set_delete ID_KEY_def image_iff)
  from setattrs_fails [OF this] assms(1) show ?thesis
    by (simp add: from_json_obj_dict)
qed

text \<open>
  C6. \<open>from_json\<close> on the mapping with \<^verbatim>\<open>_id\<close> \<^verbatim>\<open>"a-b"\<close>, \<^verbatim>\<open>status\<close>
  \<^verbatim>\<open>"PASS"\<close> and \<^verbatim>\<open>metadata\<close> \<^verbatim>\<open>{"git_commit": "abc123"}\<close>, whatever the order of
  its entries, returns a document with that status and that metadata, and with job and
  kernel \<open>None\<close>.
\<close>

theorem from_json_scenario:
  assumes dist: "distinct (map fst kvs)"
    and m: "map_of kvs = map_of [(''_id'', PyStr ''a-b''), (''status'', PyStr ''PASS''),
              (''metadata'', PyDict [(''git_commit'', PyStr ''abc123'')])]"
  shows "\<exists>doc. fst (from_json loads (PyDict kvs)) = Inr doc
           \<and> get_status doc = PyStr ''PASS''
           \<and> get_metadata doc = PyDict [(''git_commit'', PyStr ''abc123'')]
           \<and> get_job doc = PyNone
           \<and> get_kernel doc = PyNone"
proof -
  have "dom (map_of kvs) = {''_id'', ''status'', ''metadata''}"
    by (simp add: m)
  then have keys: "fst ` set kvs = {''_id'', ''status'', ''metadata''}"
    by (simp add: dom_map_of_conv_image_fst)
  have id: "map_of kvs ID_KEY = Some (PyStr ''a-b'')"
    by (simp add: m ID_KEY_def)
  have "inj_on backing (set (map fst kvs))"
    using keys by (simp add: backing_literal)
  with dist have db: "distinct (map backing (map fst kvs))"
    using distinct_map [of backing "map fst kvs"] by blast
  have nc: "''collection'' \<notin> fst ` set kvs"
    by (simp add: keys)
  from from_json_dict_reads [OF id db nc, of loads]
  obtain doc where fj0: "from_json loads (PyDict kvs) = (Inr doc, PyDict (AList.delete ID_KEY kvs))"
    and rd0: "\<forall>(k, v) \<in> set kvs. k \<noteq> ID_KEY \<longrightarrow> instance_attr doc k = Some v"
    and un0: "\<forall>k. backing k \<notin> backing ` (fst ` set kvs - {ID_KEY}) \<longrightarrow>
               instance_attr doc k = instance_attr (JobDocument (PyStr ''a-b'') PyNone PyNone) k"
    by blast
  from fj0 have fj: "fst (from_json loads (PyDict kvs)) = Inr doc" by simp
  from rd0 have rd: "instance_attr doc k = Some v" if "(k, v) \<in> set kvs" "k \<noteq> ID_KEY" for k v
    using that by blast
  from un0 have un: "instance_attr doc k = instance_attr (JobDocument (PyStr ''a-b'') PyNone PyNone) k"
    if "backing k \<notin> backing ` (fst ` set kvs - {ID_KEY})" for k
    using that by blast
  have "(''status'', PyStr ''PASS'') \<in> set kvs"
    by (rule map_of_SomeD) (simp add: m)
  then have "instance_attr doc ''status'' = Some (PyStr ''PASS'')"
    by (rule rd) (simp add: ID_KEY_def)
  then have st: "get_status doc = PyStr ''PASS''"
    by (simp add: instance_attr_def)
  have "(''metadata'', PyDict [(''git_commit'', PyStr ''abc123'')]) \<in> set kvs"
    by (rule map_of_SomeD) (simp add: m)
  then have "instance_attr doc ''metadata'' = Some (PyDict [(''git_commit'', PyStr ''abc123'')])"
    by (rule rd) (simp add: ID_KEY_def)
  then have md: "get_metadata doc = PyDict [(''git_commit'', PyStr ''abc123'')]"
    by (simp add: instance_attr_def)
  have "backing ''job'' \<notin> backing ` (fst ` set kvs - {ID_KEY})"
    by (simp add: keys ID_KEY_def backing_literal)
  from un [OF this] have jb: "get_job doc = PyNone"
    by (simp add: instance_attr_def getter_defs JobDocument_def)
  have "backing ''kernel'' \<notin> backing ` (fst ` set kvs - {ID_KEY})"
    by (simp add: keys ID_KEY_def backing_literal)
  from un [OF this] have kn: "get_kernel doc = PyNone"
    by (simp add: instance_attr_def getter_defs JobDocument_def)
  from fj st md jb kn show ?thesis by blast
qed

theorem from_json_scenario_witness:
  "distinct (map fst [(''_id'', PyStr ''a-b''), (''status'', PyStr ''PASS''),
              (''metadata'', PyDict [(''git_commit'', PyStr ''abc123'')])])
   \<and> (\<exists>doc. fst (from_json json_loads (PyDict [(''_id'', PyStr ''a-b''), (''status'', PyStr ''PASS''),
              (''metadata'', PyDict [(''git_commit'', PyStr ''abc123'')])])) = Inr doc
           \<and> get_status doc = PyStr ''PASS''
           \<and> get_metadata doc = PyDict [(''git_commit'', PyStr ''abc123'')]
           \<and> get_job doc = PyNone
           \<and> get_kernel doc = PyNone)"
proof -
  let ?kvs = "[(''_id'', PyStr ''a-b''), (''status'', PyStr ''PASS''),
              (''metadata'', PyDict [(''git_commit'', PyStr ''abc123'')])]"
  have h: "distinct (map fst ?kvs)" by simp
  from from_json_scenario [OF h refl, of json_loads] h show ?thesis by blast
qed


text \<open>
  C9. Given a mapping that has the identity key, \<open>from_json\<close> leaves the caller's mapping
  without that key, whether the call returns an instance or fails in the loop that
  follows the \<^verbatim>\<open>pop\<close>: the mapping after the call is the mapping before it minus the
  identity entry, and differs from it.
\<close>

theorem from_json_pops_identity:
  assumes "ID_KEY \<in> fst ` set kvs"
  shows "snd (from_json loads (PyDict kvs)) = PyDict (AList.delete ID_KEY kvs)
         \<and> ID_KEY \<notin> fst ` set (AList.delete ID_KEY kvs)
         \<and> snd (from_json loads (PyDict kvs)) \<noteq> PyDict kvs"
proof -
  from assms obtain name where id: "map_of kvs ID_KEY = Some name"
    by (cases "map_of kvs ID_KEY") (auto simp: map_of_eq_None_iff)
  then have 1: "snd (from_json loads (PyDict kvs)) = PyDict (AList.delete ID_KEY kvs)"
    by (simp add: from_json_obj_dict)
  have 2: "ID_KEY \<notin> fst ` set (AList.delete ID_KEY kvs)"
    by (rule AList.delete_notin_dom)
  from assms 2 have "AList.delete ID_KEY kvs \<noteq> kvs" by auto
  with 1 2 show ?thesis by simp
qed

theorem from_json_pops_identity_witness:
  "ID_KEY \<in> fst ` set [(''_id'', PyStr ''a-b''), (''status'', PyStr ''PASS'')]
   \<and> from_json json_loads (PyDict [(''_id'', PyStr ''a-b''), (''status'', PyStr ''PASS'')])
      = (Inr ((JobDocument (PyStr ''a-b'') PyNone PyNone)\<lparr>attr_status := PyStr ''PASS''\<rparr>),
         PyDict [(''status'', PyStr ''PASS'')])
   \<and> ID_KEY \<in> fst ` set [(''collection'', PyStr ''x''), (''_id'', PyStr ''a-b'')]
   \<and> from_json json_loads (PyDict [(''collection'', PyStr ''x''), (''_id'', PyStr ''a-b'')])
      = (Inl AttributeError, PyDict [(''collection'', PyStr ''x'')])"
proof -
  let ?ok = "[(''_id'', PyStr ''a-b''), (''status'', PyStr ''PASS'')]"
  let ?bad = "[(''collection'', PyStr ''x''), (''_id'', PyStr ''a-b'')]"
  have h1: "ID_KEY \<in> fst ` set ?ok" by (simp add: ID_KEY_def)
  have h2: "ID_KEY \<in> fst ` set ?bad" by (simp add: ID_KEY_def)
  have r1: "fst (from_json json_loads (PyDict ?ok))
      = Inr ((JobDocument (PyStr ''a-b'') PyNone PyNone)\<lparr>attr_status := PyStr ''PASS''\<rparr>)"
    by (simp add: from_json_obj_def ID_KEY_def setattr_def setter_defs)
  have r2: "fst (from_json json_loads (PyDict ?bad)) = Inl AttributeError"
    by (simp add: from_json_obj_def ID_KEY_def setattr_def)
  have s1: "snd (from_json json_loads (PyDict ?ok)) = PyDict [(''status'', PyStr ''PASS'')]"
    using from_json_pops_identity [OF h1, of json_loads] by (simp add: ID_KEY_def)
  have s2: "snd (from_json json_loads (PyDict ?bad)) = PyDict [(''collection'', PyStr ''x'')]"
    using from_json_pops_identity [OF h2, of json_loads] by (simp add: ID_KEY_def)
  from h1 h2 r1 r2 s1 s2 show ?thesis
    by (simp add: prod_eq_iff)
qed



section \<open>Construction and accessors\<close>

text \<open>
  C7. Whatever the name, job and kernel arguments are, a freshly constructed document has
  \<open>private\<close> false, \<open>metadata\<close> the empty dictionary (and not \<open>None\<close>), \<open>status\<close>
  \<open>None\<close> and \<open>updated\<close> \<open>None\<close>; job and kernel are the arguments.
\<close>

theorem JobDocument_defaults:
  "get_private (JobDocument name job kernel') = PyBool False
   \<and> get_metadata (JobDocument name job kernel') = PyDict []
   \<and> get_metadata (JobDocument name job kernel') \<noteq> PyNone
   \<and> get_status (JobDocument name job kernel') = PyNone
   \<and> get_updated (JobDocument name job kernel') = PyNone
   \<and> get_job (JobDocument name job kernel') = job
   \<and> get_kernel (JobDocument name job kernel') = kernel'
   \<and> attr_name (JobDocument name job kernel') = name"
  by (simp add: JobDocument_def getter_defs)

text \<open>
  C8. Each of the six setters stores the value in its own field and leaves the name, the
  five other fields and the undeclared attributes as they were. In particular the name
  is not computed again when job or kernel is set: the identity entry of \<open>to_dict\<close> is
  the same before and after.
\<close>

theorem setters_change_own_field_only:
  "get_private (set_private d v) = v
   \<and> attr_name (set_private d v) = attr_name d
   \<and> get_job (set_private d v) = get_job d
   \<and> get_kernel (set_private d v) = get_kernel d
   \<and> get_status (set_private d v) = get_status d
   \<and> get_updated (set_private d v) = get_updated d
   \<and> get_metadata (set_private d v) = get_metadata d
   \<and> attr_other (set_private d v) = attr_other d
   \<and> get_job (set_job d v) = v
   \<and> attr_name (set_job d v) = attr_name d
   \<and> get_private (set_job d v) = get_private d
   \<and> get_kernel (set_job d v) = get_kernel d
   \<and> get_status (set_job d v) = get_status d
   \<and> get_updated (set_job d v) = get_updated d
   \<and> get_metadata (set_job d v) = get_metadata d
   \<and> attr_other (set_job d v) = attr_other d
   \<and> get_kernel (set_kernel d v) = v
   \<and> attr_name (set_kernel d v) = attr_name d
   \<and> get_private (set_kernel d v) = get_private d
   \<and> get_job (set_kernel d v) = get_job d
   \<and> get_status (set_kernel d v) = get_status d
   \<and> get_updated (set_kernel d v) = get_updated d
   \<and> get_metadata (set_kernel d v) = get_metadata d
   \<and> attr_other (set_kernel d v) = attr_other d
   \<and> get_status (set_status d v) = v
   \<and> attr_name (set_status d v) = attr_name d
   \<and> get_private (set_status d v) = get_private d
   \<and> get_job (set_status d v) = get_job d
   \<and> get_kernel (set_status d v) = get_kernel d
   \<and> get_updated (set_status d v) = get_updated d
   \<and> get_metadata (set_status d v) = get_metadata d
   \<and> attr_other (set_status d v) = attr_other d
   \<and> get_updated (set_updated d v) = v
   \<and> attr_name (set_updated d v) = attr_name d
   \<and> get_private (set_updated d v) = get_private d
   \<and> get_job (set_updated d v) = get_job d
   \<and> get_kernel (set_updated d v) = get_kernel d
   \<and> get_status (set_updated d v) = get_status d
   \<and> get_metadata (set_updated d v) = get_metadata d
   \<and> attr_other (set_updated d v) = attr_other d
   \<and> get_metadata (set_metadata d v) = v
   \<and> attr_name (set_metadata d v) = attr_name d
   \<and> get_private (set_metadata d v) = get_private d
   \<and> get_job (set_metadata d v) = get_job d
   \<and> get_kernel (set_metadata d v) = get_kernel d
   \<and> get_status (set_metadata d v) = get_status d
   \<and> get_updated (set_metadata d v) = get_updated d
   \<and> attr_other (set_metadata d v) = attr_other d
   \<and> map_of (to_dict (set_job d v)) ID_KEY = map_of (to_dict d) ID_KEY
   \<and> map_of (to_dict (set_kernel d v)) ID_KEY = map_of (to_dict d) ID_KEY"
  by (simp add: setter_defs getter_defs to_dict_list key_defs)


end
